theory Spec2Isabelle
  imports Complex_Main "HOL-Library.AList"
begin

section \<open>Label-space clustering with NetworkX community detection\<close>

text \<open>
  A shallow embedding of \<^verbatim>\<open>NetworkXLabelGraphClusterer.fit_predict\<close>
  (\<^verbatim>\<open>skmultilearn/cluster/networkx.py\<close>). Label indices, graph nodes and community
  ids are natural numbers. Edge weights are only carried from the edge map into the graph
  and into \<^verbatim>\<open>weights_\<close>, never computed with, so their type is a parameter \<open>'w\<close>
  (a Python \<^verbatim>\<open>None\<close> marker is a value of that type like any other).
\<close>

subsection \<open>Python errors\<close>

datatype error =
    KeyError nat          \<comment> \<open>\<^verbatim>\<open>partition_dict[i]\<close> on a dict without key \<open>i\<close>\<close>
  | TypeError             \<comment> \<open>subscripting an object that is not subscriptable\<close>
  | AttributeError        \<comment> \<open>looking up an attribute the object or module does not have\<close>
  | ValueError            \<comment> \<open>\<^verbatim>\<open>max()\<close> of an empty sequence\<close>
  | LibraryError string   \<comment> \<open>an exception raised inside a collaborator, passed through\<close>

subsection \<open>The undirected graph of \<^verbatim>\<open>networkx.Graph\<close>\<close>

text \<open>
  Nodes are kept in insertion order. An edge is stored once, under the orientation it was
  first added with, together with its \<^verbatim>\<open>weight\<close> attribute; adding an edge that is
  already present, in either orientation, overwrites that attribute.
\<close>

record 'w graph =
  nodes :: "nat list"
  edges :: "((nat \<times> nat) \<times> 'w) list"

definition Graph :: "'w graph" where
  "Graph = \<lparr>nodes = [], edges = []\<rparr>"

definition add_node :: "nat \<Rightarrow> 'w graph \<Rightarrow> 'w graph" where
  "add_node n g = (if n \<in> set (nodes g) then g else g\<lparr>nodes := nodes g @ [n]\<rparr>)"

definition same_edge :: "nat \<times> nat \<Rightarrow> nat \<times> nat \<Rightarrow> bool" where
  "same_edge e f = (e = f \<or> e = (snd f, fst f))"

fun set_weight :: "nat \<times> nat \<Rightarrow> 'w \<Rightarrow> ((nat \<times> nat) \<times> 'w) list \<Rightarrow> ((nat \<times> nat) \<times> 'w) list" where
  "set_weight e w [] = [(e, w)]"
| "set_weight e w ((f, v) # es) =
     (if same_edge e f then (f, w) # es else (f, v) # set_weight e w es)"

definition add_edge :: "nat \<Rightarrow> nat \<Rightarrow> 'w \<Rightarrow> 'w graph \<Rightarrow> 'w graph" where
  "add_edge u v w g =
     (let g' = add_node v (add_node u g)
      in g'\<lparr>edges := set_weight (u, v) w (edges g')\<rparr>)"

definition number_of_nodes :: "'w graph \<Rightarrow> nat" where
  "number_of_nodes g = length (nodes g)"

definition number_of_edges :: "'w graph \<Rightarrow> nat" where
  "number_of_edges g = length (edges g)"

subsection \<open>Collaborators\<close>

text \<open>
  The label matrix \<open>y\<close> is a sparse matrix: its \<open>shape\<close> is (samples, labels) and its rows
  list the labels set in each sample. \<^verbatim>\<open>fit_predict\<close> reads \<^verbatim>\<open>y.shape[1]\<close> and
  hands \<open>y\<close> to the graph builder.
\<close>

record label_matrix =
  shape :: "nat \<times> nat"
  rows :: "nat list list"

text \<open>
  An edge map is the dict returned by the graph builder, as the list of its items in
  iteration order: keys are pairs of label indices.
\<close>

type_synonym 'w edge_map = "((nat \<times> nat) \<times> 'w) list"

record 'w graph_builder =
  transform :: "label_matrix \<Rightarrow> error + 'w edge_map"
  is_weighted :: bool

text \<open>
  What community detection hands back: \<^verbatim>\<open>community.best_partition\<close> returns a dict
  from node to community id (an association list, the first binding of a key being the
  dict's entry); \<^verbatim>\<open>nx.asyn_lpa_communities\<close> returns an iterator over sets of nodes.
  Either expression can raise instead: an exception inside the library, or, for
  \<^verbatim>\<open>nx.asyn_lpa_communities\<close>, the lookup of a name that the installed \<^verbatim>\<open>networkx\<close>
  keeps under \<^verbatim>\<open>networkx.algorithms.community\<close> and not at its top level.
\<close>

datatype partition =
    AssignmentDict "(nat \<times> nat) list"
  | CommunityIter "nat set list"

record 'w community_lib =
  best_partition :: "'w graph \<Rightarrow> error + (nat \<times> nat) list"
  asyn_lpa_communities :: "'w graph \<Rightarrow> string \<Rightarrow> error + nat set list"

subsection \<open>Operations on the partition object\<close>

fun getitem :: "partition \<Rightarrow> nat \<Rightarrow> error + nat" where
  "getitem (AssignmentDict d) i =
     (case map_of d i of None \<Rightarrow> Inl (KeyError i) | Some c \<Rightarrow> Inr c)"
| "getitem (CommunityIter groups) i = Inl TypeError"

definition dict_values :: "(nat \<times> nat) list \<Rightarrow> nat list" where
  "dict_values d = map snd (AList.clearjunk d)"

fun values_of :: "partition \<Rightarrow> error + nat list" where
  "values_of (AssignmentDict d) = Inr (dict_values d)"
| "values_of (CommunityIter groups) = Inl AttributeError"

fun py_max :: "nat list \<Rightarrow> error + nat" where
  "py_max [] = Inl ValueError"
| "py_max (x # xs) = Inr (fold max xs x)"

text \<open>
  The list comprehension \<^verbatim>\<open>[f(i) for i in idx]\<close>: the first element that raises ends it.
\<close>

fun comprehension :: "(nat \<Rightarrow> error + 'a) \<Rightarrow> nat list \<Rightarrow> error + 'a list" where
  "comprehension f [] = Inr []"
| "comprehension f (i # idx) =
     (case f i of
        Inl e \<Rightarrow> Inl e
      | Inr v \<Rightarrow> (case comprehension f idx of Inl e \<Rightarrow> Inl e | Inr vs \<Rightarrow> Inr (v # vs)))"

text \<open>
  Modelled from the spec: \<^verbatim>\<open>_membership_to_list_of_communities\<close> is imported from
  \<^verbatim>\<open>skmultilearn/cluster/helpers.py\<close>, which is not among the sources. Following the
  Partition Converter's contract, the result has one entry per community id below \<open>size'\<close>,
  and entry \<open>c\<close> lists, in ascending order, the indices whose membership is \<open>c\<close>; an id
  without members gives an empty entry.
\<close>

definition membership_to_list_of_communities :: "nat list \<Rightarrow> nat \<Rightarrow> nat list list" where
  "membership_to_list_of_communities membership_vector size' =
     map (\<lambda>c. filter (\<lambda>i. membership_vector ! i = c) [0..<length membership_vector])
       [0..<size']"

subsection \<open>The three stages of \<^verbatim>\<open>fit_predict\<close>\<close>

text \<open>Lines 152--157: an empty graph, one node per label, one \<^verbatim>\<open>add_edge\<close> per item.\<close>

definition assemble_graph :: "nat \<Rightarrow> 'w edge_map \<Rightarrow> 'w graph" where
  "assemble_graph num_labels edge_map =
     fold (\<lambda>(e, w). add_edge (fst e) (snd e) w) edge_map
       (fold add_node [0..<num_labels] Graph)"

text \<open>Lines 159--162: the branch on \<^verbatim>\<open>self.method\<close>.\<close>

definition detect_communities :: "'w community_lib \<Rightarrow> string \<Rightarrow> 'w graph \<Rightarrow> error + partition" where
  "detect_communities lib method g =
     (if method = ''louvain''
      then (case best_partition lib g of Inl e \<Rightarrow> Inl e | Inr d \<Rightarrow> Inr (AssignmentDict d))
      else (case asyn_lpa_communities lib g ''weight'' of
              Inl e \<Rightarrow> Inl e
            | Inr groups \<Rightarrow> Inr (CommunityIter groups)))"

text \<open>
  Lines 164--171: the returned expression. Python evaluates the list comprehension first,
  then \<^verbatim>\<open>1+max(partition_dict.values())\<close>, then calls the helper. \<^verbatim>\<open>np.array\<close>
  only wraps the nested list and is left out.
\<close>

definition to_membership_list :: "partition \<Rightarrow> nat \<Rightarrow> error + nat list list" where
  "to_membership_list partition_dict num_labels =
     (case comprehension (getitem partition_dict) [0..<num_labels] of
        Inl e \<Rightarrow> Inl e
      | Inr membership \<Rightarrow>
          (case values_of partition_dict of
             Inl e \<Rightarrow> Inl e
           | Inr vs \<Rightarrow>
               (case py_max vs of
                  Inl e \<Rightarrow> Inl e
                | Inr m \<Rightarrow> Inr (membership_to_list_of_communities membership (1 + m)))))"

subsection \<open>The clusterer\<close>

text \<open>
  The attributes \<^verbatim>\<open>method\<close>, \<^verbatim>\<open>graph_\<close> and \<^verbatim>\<open>weights_\<close> are the fields
  \<open>method_attr\<close>, \<open>graph_attr\<close> and \<open>weights_attr\<close> (\<open>method\<close> is a keyword of
  Isabelle, and a name cannot end in an underscore). The last two are \<open>None\<close> until \<^verbatim>\<open>fit_predict\<close> sets them;
  \<^verbatim>\<open>weights_\<close> is then the value under the key \<^verbatim>\<open>'weight'\<close>: a list of edge-map
  values, or Python's \<^verbatim>\<open>None\<close>.
\<close>

record 'w clusterer =
  graph_builder :: "'w graph_builder"
  method_attr :: string
  graph_attr :: "'w graph option"
  weights_attr :: "'w list option option"

definition fit_predict ::
  "'w community_lib \<Rightarrow> 'w clusterer \<Rightarrow> 'x \<Rightarrow> label_matrix \<Rightarrow> 'w clusterer \<times> (error + nat list list)" where
  "fit_predict lib self X y =
     (case transform (graph_builder self) y of
        Inl e \<Rightarrow> (self, Inl e)
      | Inr edge_map \<Rightarrow>
          (let self1 = self\<lparr>weights_attr :=
                 Some (if is_weighted (graph_builder self) then Some (map snd edge_map) else None)\<rparr>;
               g = assemble_graph (snd (shape y)) edge_map;
               self2 = self1\<lparr>graph_attr := Some g\<rparr>
           in (self2,
               case detect_communities lib (method_attr self) g of
                 Inl e \<Rightarrow> Inl e
               | Inr partition_dict \<Rightarrow> to_membership_list partition_dict (snd (shape y)))))"

subsection \<open>Vocabulary of the properties\<close>

text \<open>
  The key of an edge map read as an unordered pair: two keys with the same \<open>undirected\<close>
  value are one edge of the graph.
\<close>

definition undirected :: "nat \<times> nat \<Rightarrow> nat \<times> nat" where
  "undirected e = (min (fst e) (snd e), max (fst e) (snd e))"

text \<open>
  Re-deriving an assignment from a membership list, as the round-trip property words it:
  a label is mapped to the position of the first community that contains it.
\<close>

fun rederive_assignment :: "nat list list \<Rightarrow> nat \<Rightarrow> nat option" where
  "rederive_assignment [] i = None"
| "rederive_assignment (c # cs) i =
     (if i \<in> set c then Some 0 else map_option Suc (rederive_assignment cs i))"

subsection \<open>Test doubles for the collaborators\<close>

text \<open>
  A graph builder that returns a fixed edge map; a community library whose answers are
  fixed (the oracle partition and the groups of the spec's scenarios); a library
  that puts every node of the graph in a community of its own, numbered in node order;
  and a library whose module has no top-level \<^verbatim>\<open>asyn_lpa_communities\<close>.
\<close>

definition stub_builder :: "'w edge_map \<Rightarrow> bool \<Rightarrow> 'w graph_builder" where
  "stub_builder em weighted = \<lparr>transform = (\<lambda>y. Inr em), is_weighted = weighted\<rparr>"

definition stub_clusterer :: "'w edge_map \<Rightarrow> bool \<Rightarrow> string \<Rightarrow> 'w clusterer" where
  "stub_clusterer em weighted m =
     \<lparr>graph_builder = stub_builder em weighted, method_attr = m,
      graph_attr = None, weights_attr = None\<rparr>"

definition oracle_partition :: "(nat \<times> nat) list" where
  "oracle_partition = [(0, 0), (1, 0), (2, 0), (3, 1)]"

definition oracle_lib :: "'w community_lib" where
  "oracle_lib =
     \<lparr>best_partition = (\<lambda>g. Inr oracle_partition),
      asyn_lpa_communities = (\<lambda>g attr. Inr [{0, 1, 2}, {3}])\<rparr>"

definition singleton_lib :: "'w community_lib" where
  "singleton_lib =
     \<lparr>best_partition = (\<lambda>g. Inr (zip (nodes g) [0..<length (nodes g)])),
      asyn_lpa_communities = (\<lambda>g attr. Inr (map (\<lambda>n. {n}) (nodes g)))\<rparr>"

definition toplevel_lib :: "'w community_lib" where
  "toplevel_lib =
     \<lparr>best_partition = (\<lambda>g. Inr oracle_partition),
      asyn_lpa_communities = (\<lambda>g attr. Inl AttributeError)\<rparr>"

definition scenario_edge_map :: "real edge_map" where
  "scenario_edge_map = [((0, 1), 2), ((1, 2), 1)]"

definition marker_edge_map :: "real option edge_map" where
  "marker_edge_map = [((0, 1), None), ((1, 2), None)]"

definition uneven_edge_map :: "real option edge_map" where
  "uneven_edge_map = [((0, 1), Some 2), ((1, 2), Some 1)]"

definition scenario_y :: label_matrix where
  "scenario_y = \<lparr>shape = (4, 4), rows = [[0, 1], [0, 1], [1, 2], [3]]\<rparr>"

definition no_labels_y :: label_matrix where
  "no_labels_y = \<lparr>shape = (2, 0), rows = [[], []]\<rparr>"

definition one_label_y :: label_matrix where
  "one_label_y = \<lparr>shape = (2, 1), rows = [[0], []]\<rparr>"

section \<open>Properties of the stages\<close>

subsection \<open>The list comprehension\<close>

lemma comprehension_all_Inr:
  "(\<And>i. i \<in> set idx \<Longrightarrow> f i = Inr (g i)) \<Longrightarrow> comprehension f idx = Inr (map g idx)"
  by (induction idx) simp_all

lemma comprehension_first_error:
  "(\<And>k. k \<in> set pre \<Longrightarrow> f k = Inr (g k)) \<Longrightarrow> f j = Inl e \<Longrightarrow>
   comprehension f (pre @ j # post) = Inl e"
  by (induction pre) simp_all

lemma comprehension_dict_ok:
  assumes "\<And>i. i \<in> set idx \<Longrightarrow> map_of d i \<noteq> None"
  shows "comprehension (getitem (AssignmentDict d)) idx = Inr (map (\<lambda>i. the (map_of d i)) idx)"
proof (rule comprehension_all_Inr)
  fix i assume "i \<in> set idx"
  then obtain c where "map_of d i = Some c" using assms by blast
  then show "getitem (AssignmentDict d) i = Inr (the (map_of d i))" by simp
qed

subsection \<open>Values and maximum of the assignment\<close>

lemma set_dict_values: "set (dict_values d) = ran (map_of d)"
  by (simp add: dict_values_def AList.ran_map_of)

lemma dict_values_Nil: "dict_values d = [] \<longleftrightarrow> d = []"
  by (cases d) (simp_all add: dict_values_def)

lemma finite_ran_dict: "finite (ran (map_of (d :: (nat \<times> nat) list)))"
  using List.finite_set[of "dict_values d"] by (simp only: set_dict_values)

lemma py_max_Max:
  assumes "xs \<noteq> []"
  shows "py_max xs = Inr (Max (set xs))"
proof (cases xs)
  case Nil
  with assms show ?thesis by simp
next
  case (Cons a list)
  have "Max (set (a # list)) = fold max list a" by (rule Max.set_eq_fold)
  with Cons show ?thesis by simp
qed

lemma py_max_set_cong:
  assumes "set xs = set ys"
  shows "py_max xs = py_max ys"
proof (cases "xs = []")
  case True
  with assms show ?thesis by simp
next
  case False
  with assms have "ys \<noteq> []" by auto
  with False assms show ?thesis by (simp add: py_max_Max)
qed

subsection \<open>The helper\<close>

lemma length_communities: "length (membership_to_list_of_communities mv k) = k"
  by (simp add: membership_to_list_of_communities_def)

lemma nth_communities:
  "c < k \<Longrightarrow>
   membership_to_list_of_communities mv k ! c = filter (\<lambda>i. mv ! i = c) [0..<length mv]"
  by (simp add: membership_to_list_of_communities_def)

lemma set_nth_communities:
  "c < k \<Longrightarrow>
   set (membership_to_list_of_communities mv k ! c) = {i. i < length mv \<and> mv ! i = c}"
  by (auto simp add: nth_communities)

lemma sorted_communities:
  "c \<in> set (membership_to_list_of_communities mv k) \<Longrightarrow> sorted_wrt (<) c"
  by (auto simp: membership_to_list_of_communities_def sorted_wrt_filter)

subsection \<open>The conversion on a dict\<close>

lemma to_membership_list_dict:
  assumes cover: "\<forall>i<L. map_of d i \<noteq> None" and ne: "d \<noteq> []"
  shows "to_membership_list (AssignmentDict d) L =
         Inr (membership_to_list_of_communities (map (\<lambda>i. the (map_of d i)) [0..<L])
                (1 + Max (ran (map_of d))))"
proof -
  have c: "comprehension (getitem (AssignmentDict d)) [0..<L] =
           Inr (map (\<lambda>i. the (map_of d i)) [0..<L])"
    using cover by (intro comprehension_dict_ok) simp
  have v: "dict_values d \<noteq> []" using ne by (simp add: dict_values_Nil)
  show ?thesis
    by (simp add: to_membership_list_def c py_max_Max[OF v] set_dict_values)
qed

lemma to_membership_list_nonempty: "to_membership_list p L \<noteq> Inr []"
proof
  assume a: "to_membership_list p L = Inr []"
  then obtain mv vs m where "py_max vs = Inr m"
    and "membership_to_list_of_communities mv (1 + m) = []"
    by (auto simp: to_membership_list_def split: sum.splits)
  then have "length (membership_to_list_of_communities mv (1 + m)) = 0" by simp
  then show False by (simp add: length_communities)
qed

subsection \<open>Assembling the graph\<close>

lemma same_edge_undirected: "same_edge e f \<longleftrightarrow> undirected e = undirected f"
  by (cases e; cases f) (auto simp: same_edge_def undirected_def min_def max_def split: if_splits)

lemma set_weight_fresh:
  "undirected e \<notin> undirected ` fst ` set es \<Longrightarrow> set_weight e w es = es @ [(e, w)]"
  by (induction es) (auto simp: same_edge_undirected)

lemma fold_add_node_upt: "fold add_node [0..<n] Graph = \<lparr>nodes = [0..<n], edges = []\<rparr>"
  by (induction n) (simp_all add: Graph_def add_node_def)

lemma edges_add_node: "edges (add_node n g) = edges g"
  by (simp add: add_node_def)

lemma edges_add_edge: "edges (add_edge u v w g) = set_weight (u, v) w (edges g)"
  by (simp add: add_edge_def Let_def edges_add_node)

lemma nodes_add_edge:
  "u \<in> set (nodes g) \<Longrightarrow> v \<in> set (nodes g) \<Longrightarrow> nodes (add_edge u v w g) = nodes g"
  by (simp add: add_edge_def Let_def add_node_def)

lemma nodes_fold_add_edge:
  "\<forall>e \<in> fst ` set em. fst e \<in> set (nodes g) \<and> snd e \<in> set (nodes g) \<Longrightarrow>
   nodes (fold (\<lambda>(e, w). add_edge (fst e) (snd e) w) em g) = nodes g"
proof (induction em arbitrary: g)
  case Nil
  show ?case by simp
next
  case (Cons x em)
  obtain u v w where x: "x = ((u, v), w)" by (metis prod.collapse)
  have n: "nodes (add_edge u v w g) = nodes g"
    using Cons.prems x by (intro nodes_add_edge) auto
  have "nodes (fold (\<lambda>(e, w). add_edge (fst e) (snd e) w) em (add_edge u v w g))
        = nodes (add_edge u v w g)"
    using Cons.prems n by (intro Cons.IH) simp
  with n x show ?case by simp
qed

lemma edges_fold_add_edge:
  assumes "distinct (map (\<lambda>x. undirected (fst x)) em)"
    and "undirected ` fst ` set em \<inter> undirected ` fst ` set (edges g) = {}"
  shows "edges (fold (\<lambda>(e, w). add_edge (fst e) (snd e) w) em g) = edges g @ em"
  using assms
proof (induction em arbitrary: g)
  case Nil
  show ?case by simp
next
  case (Cons x em)
  obtain u v w where x: "x = ((u, v), w)" by (metis prod.collapse)
  let ?g = "add_edge u v w g"
  have "undirected (u, v) \<notin> undirected ` fst ` set (edges g)"
    using Cons.prems(2) x by auto
  then have step: "edges ?g = edges g @ [((u, v), w)]"
    by (simp add: edges_add_edge set_weight_fresh)
  have fresh: "undirected (u, v) \<notin> undirected ` fst ` set em"
    using Cons.prems(1) x by (simp add: image_image)
  have disj: "undirected ` fst ` set em \<inter> undirected ` fst ` set (edges ?g) = {}"
    using Cons.prems(2) fresh by (auto simp: step)
  have "edges (fold (\<lambda>(e, w). add_edge (fst e) (snd e) w) em ?g) = edges ?g @ em"
  proof (rule Cons.IH)
    show "distinct (map (\<lambda>x. undirected (fst x)) em)" using Cons.prems(1) by simp
    show "undirected ` fst ` set em \<inter> undirected ` fst ` set (edges ?g) = {}" by (rule disj)
  qed
  with step x show ?case by simp
qed

lemma edges_assemble_graph:
  assumes "distinct (map (\<lambda>x. undirected (fst x)) em)"
  shows "edges (assemble_graph L em) = em"
  using edges_fold_add_edge[OF assms, of "fold add_node [0..<L] Graph"]
  by (simp add: assemble_graph_def fold_add_node_upt)

lemma nodes_assemble_graph:
  assumes "\<forall>e \<in> fst ` set em. fst e < L \<and> snd e < L"
  shows "nodes (assemble_graph L em) = [0..<L]"
  using nodes_fold_add_edge[of em "fold add_node [0..<L] Graph"] assms
  by (simp add: assemble_graph_def fold_add_node_upt)

lemma fit_predict_attrs:
  assumes "transform (graph_builder self) y = Inr em"
  shows "graph_attr (fst (fit_predict lib self X y)) = Some (assemble_graph (snd (shape y)) em)"
    and "weights_attr (fst (fit_predict lib self X y)) =
           Some (if is_weighted (graph_builder self) then Some (map snd em) else None)"
  using assms by (simp_all add: fit_predict_def Let_def)

subsection \<open>What \<^verbatim>\<open>fit_predict\<close> can and cannot return\<close>

lemma iterator_never_converts:
  "to_membership_list (CommunityIter groups) L = Inl (if L = 0 then AttributeError else TypeError)"
proof (cases L)
  case 0
  then show ?thesis by (simp add: to_membership_list_def)
next
  case (Suc n)
  have "[0..<Suc n] = 0 # [1..<Suc n]" by (simp add: upt_rec)
  then show ?thesis using Suc by (simp add: to_membership_list_def)
qed

lemma fit_predict_never_empty: "snd (fit_predict lib self X y) \<noteq> Inr []"
  by (auto simp: fit_predict_def Let_def to_membership_list_nonempty split: sum.splits)

subsection \<open>The louvain path of \<^verbatim>\<open>fit_predict\<close>\<close>

lemma fit_predict_louvain:
  assumes "transform (graph_builder self) y = Inr em"
    and "method_attr self = ''louvain''"
    and "best_partition lib (assemble_graph (snd (shape y)) em) = Inr d"
  shows "snd (fit_predict lib self X y) = to_membership_list (AssignmentDict d) (snd (shape y))"
  using assms by (simp add: fit_predict_def detect_communities_def Let_def)

lemma label_in_one_community:
  assumes kL: "\<forall>i<L. mv i < k"
  shows "\<forall>i<L. \<exists>!c. c < k \<and> i \<in> set (membership_to_list_of_communities (map mv [0..<L]) k ! c)"
proof (intro allI impI)
  fix i assume i: "i < L"
  show "\<exists>!c. c < k \<and> i \<in> set (membership_to_list_of_communities (map mv [0..<L]) k ! c)"
  proof (rule ex1I[of _ "mv i"])
    show "mv i < k \<and> i \<in> set (membership_to_list_of_communities (map mv [0..<L]) k ! mv i)"
      using i kL by (simp add: set_nth_communities)
  next
    fix c assume "c < k \<and> i \<in> set (membership_to_list_of_communities (map mv [0..<L]) k ! c)"
    then show "c = mv i" using i by (auto simp: set_nth_communities)
  qed
qed

lemma assignment_below_max:
  assumes "map_of (d :: (nat \<times> nat) list) i \<noteq> None"
  shows "the (map_of d i) < 1 + Max (ran (map_of d))"
proof -
  from assms obtain c where c: "map_of d i = Some c" by blast
  then have "c \<in> ran (map_of d)" by (auto simp: ran_def)
  then have "c \<le> Max (ran (map_of d))" by (intro Max_ge finite_ran_dict)
  with c show ?thesis by simp
qed

subsection \<open>Reading a label's community back from a membership list\<close>

lemma rederive_position:
  assumes "c < length out" and "i \<in> set (out ! c)"
    and "\<forall>c'<c. i \<notin> set (out ! c')"
  shows "rederive_assignment out i = Some c"
  using assms
proof (induction out arbitrary: c)
  case Nil
  then show ?case by simp
next
  case (Cons a out)
  show ?case
  proof (cases c)
    case 0
    with Cons.prems show ?thesis by simp
  next
    case (Suc c')
    have a: "i \<notin> set a" using Cons.prems(3) Suc by force
    have "rederive_assignment out i = Some c'"
    proof (rule Cons.IH)
      show "c' < length out" using Cons.prems(1) Suc by simp
      show "i \<in> set (out ! c')" using Cons.prems(2) Suc by simp
      show "\<forall>c''<c'. i \<notin> set (out ! c'')"
      proof (intro allI impI)
        fix c'' assume "c'' < c'"
        then have "Suc c'' < c" using Suc by simp
        with Cons.prems(3) have "i \<notin> set ((a # out) ! Suc c'')" by blast
        then show "i \<notin> set (out ! c'')" by simp
      qed
    qed
    with a Suc show ?thesis by simp
  qed
qed

section \<open>The claims\<close>

text \<open>
  C1 (as the spec words it: every method string other than \<^verbatim>\<open>"louvain"\<close> and
  \<^verbatim>\<open>"label_propagation"\<close> makes the dispatch fail with an unsupported-method error
  instead of running label propagation). On \<^verbatim>\<open>"unknown"\<close> the dispatch evaluates
  \<^verbatim>\<open>nx.asyn_lpa_communities\<close>: where the library has it, the groups come back and
  nothing fails; where it does not, the error is the library's \<^verbatim>\<open>AttributeError\<close>,
  the same that \<^verbatim>\<open>"label_propagation"\<close> gets.
\<close>

theorem unknown_method_runs_label_propagation:
  "detect_communities oracle_lib ''unknown'' (assemble_graph 4 scenario_edge_map)
     = Inr (CommunityIter [{0, 1, 2}, {3}])
   \<and> detect_communities oracle_lib ''unknown'' (assemble_graph 4 scenario_edge_map)
     = detect_communities oracle_lib ''label_propagation'' (assemble_graph 4 scenario_edge_map)
   \<and> detect_communities toplevel_lib ''unknown'' (assemble_graph 4 scenario_edge_map)
     = Inl AttributeError
   \<and> detect_communities toplevel_lib ''label_propagation'' (assemble_graph 4 scenario_edge_map)
     = Inl AttributeError"
  by (simp add: detect_communities_def oracle_lib_def toplevel_lib_def)

text \<open>
  C1, as the code has it: the method string is only compared with \<^verbatim>\<open>"louvain"\<close>.
  Every other string, recognised or not, is dispatched exactly as
  \<^verbatim>\<open>"label_propagation"\<close> is: \<^verbatim>\<open>nx.asyn_lpa_communities\<close> is evaluated on the
  graph with the attribute name \<^verbatim>\<open>'weight'\<close>, and its outcome, the iterator of groups
  or the exception it raised, is the outcome of the dispatch.
\<close>

theorem dispatch_falls_through:
  "m \<noteq> ''louvain'' \<Longrightarrow>
   detect_communities lib m g = detect_communities lib ''label_propagation'' g
   \<and> detect_communities lib m g =
       (case asyn_lpa_communities lib g ''weight'' of
          Inl e \<Rightarrow> Inl e
        | Inr groups \<Rightarrow> Inr (CommunityIter groups))"
  by (simp add: detect_communities_def)

theorem dispatch_falls_through_witness:
  "''unknown'' \<noteq> ''louvain''
   \<and> detect_communities toplevel_lib ''unknown'' (assemble_graph 4 scenario_edge_map)
       = detect_communities toplevel_lib ''label_propagation'' (assemble_graph 4 scenario_edge_map)
   \<and> detect_communities toplevel_lib ''unknown'' (assemble_graph 4 scenario_edge_map)
       = (case asyn_lpa_communities toplevel_lib (assemble_graph 4 scenario_edge_map) ''weight'' of
            Inl e \<Rightarrow> Inl e
          | Inr groups \<Rightarrow> Inr (CommunityIter groups))"
proof -
  have h: "''unknown'' \<noteq> ''louvain''" by simp
  from dispatch_falls_through[OF h] h show ?thesis by blast
qed

lemma dispatch_passes_library_error:
  "m \<noteq> ''louvain'' \<Longrightarrow> asyn_lpa_communities lib g ''weight'' = Inl e \<Longrightarrow>
   detect_communities lib m g = Inl e"
  by (simp add: detect_communities_def)

text \<open>
  C2 (the groups of label propagation are turned into a node-to-id mapping, so that the
  groups \<open>[{0,1,2},{3}]\<close> over four labels give \<open>[[0,1,2],[3]]\<close>). The code subscripts
  the iterator of groups as if it were the dict of the louvain branch: on the scenario
  \<^verbatim>\<open>fit_predict\<close> ends in a \<^verbatim>\<open>TypeError\<close>.
\<close>

theorem label_propagation_fails:
  "snd (fit_predict oracle_lib (stub_clusterer scenario_edge_map True ''label_propagation'') () scenario_y)
     = Inl TypeError"
  by code_simp

lemma louvain_scenario:
  "snd (fit_predict oracle_lib (stub_clusterer scenario_edge_map True ''louvain'') () scenario_y)
     = Inr [[0, 1, 2], [3]]"
  by code_simp

text \<open>
  C3. When community detection returns an assignment that has an entry for every label
  index below \<open>L\<close> (and is not the empty dict, so that its maximum exists),
  \<^verbatim>\<open>fit_predict\<close> returns a membership list of length
  \<open>1 + max(assignment.values())\<close> in which every label index below \<open>L\<close> lies in
  exactly one community entry and every entry is in ascending order.
\<close>

theorem membership_list_shape:
  assumes tr: "transform (graph_builder self) y = Inr em"
    and lv: "method_attr self = ''louvain''"
    and bp: "best_partition lib (assemble_graph (snd (shape y)) em) = Inr d"
    and cover: "\<forall>i < snd (shape y). map_of d i \<noteq> None"
    and ne: "d \<noteq> []"
  shows "\<exists>out. snd (fit_predict lib self X y) = Inr out
           \<and> length out = 1 + Max (ran (map_of d))
           \<and> (\<forall>i < snd (shape y). \<exists>!c. c < length out \<and> i \<in> set (out ! c))
           \<and> (\<forall>c \<in> set out. sorted_wrt (<) c)"
proof -
  let ?L = "snd (shape y)"
  let ?k = "1 + Max (ran (map_of d))"
  let ?out = "membership_to_list_of_communities (map (\<lambda>i. the (map_of d i)) [0..<?L]) ?k"
  have r: "snd (fit_predict lib self X y) = Inr ?out"
    by (simp only: fit_predict_louvain[OF tr lv bp] to_membership_list_dict[OF cover ne])
  have len: "length ?out = ?k" by (rule length_communities)
  have "\<forall>i<?L. the (map_of d i) < ?k" using cover assignment_below_max by blast
  then have one: "\<forall>i<?L. \<exists>!c. c < ?k \<and> i \<in> set (?out ! c)"
    by (rule label_in_one_community)
  have srt: "\<forall>c \<in> set ?out. sorted_wrt (<) c" using sorted_communities by blast
  from r len one srt show ?thesis by (metis (no_types, lifting))
qed

theorem membership_list_shape_witness:
  "transform (graph_builder (stub_clusterer scenario_edge_map True ''louvain'')) scenario_y = Inr scenario_edge_map
   \<and> method_attr (stub_clusterer scenario_edge_map True ''louvain'') = ''louvain''
   \<and> best_partition oracle_lib (assemble_graph (snd (shape scenario_y)) scenario_edge_map) = Inr oracle_partition
   \<and> list_all (\<lambda>i. map_of oracle_partition i \<noteq> None) [0..<snd (shape scenario_y)]
   \<and> oracle_partition \<noteq> []
   \<and> (\<exists>out. snd (fit_predict oracle_lib (stub_clusterer scenario_edge_map True ''louvain'') () scenario_y) = Inr out
           \<and> length out = 1 + Max (ran (map_of oracle_partition))
           \<and> (\<forall>i < snd (shape scenario_y). \<exists>!c. c < length out \<and> i \<in> set (out ! c))
           \<and> (\<forall>c \<in> set out. sorted_wrt (<) c))"
proof -
  have h1: "transform (graph_builder (stub_clusterer scenario_edge_map True ''louvain'')) scenario_y = Inr scenario_edge_map"
    by (simp add: stub_clusterer_def stub_builder_def)
  have h2: "method_attr (stub_clusterer scenario_edge_map True ''louvain'') = ''louvain''"
    by (simp add: stub_clusterer_def)
  have h3: "best_partition oracle_lib (assemble_graph (snd (shape scenario_y)) scenario_edge_map) = Inr oracle_partition"
    by (simp add: oracle_lib_def)
  have h4: "\<forall>i < snd (shape scenario_y). map_of oracle_partition i \<noteq> None"
    by (simp add: scenario_y_def oracle_partition_def numeral_eq_Suc All_less_Suc)
  then have h4': "list_all (\<lambda>i. map_of oracle_partition i \<noteq> None) [0..<snd (shape scenario_y)]"
    by (simp add: list_all_iff)
  have h5: "oracle_partition \<noteq> []" by (simp add: oracle_partition_def)
  from membership_list_shape[OF h1 h2 h3 h4 h5, of "()"] h1 h2 h3 h4' h5 show ?thesis by blast
qed

text \<open>
  C4. For a label matrix with \<open>L\<close> columns and an edge map whose keys are pairs of
  distinct label indices below \<open>L\<close>, each unordered pair occurring once, the graph left in
  \<^verbatim>\<open>graph_\<close> has the nodes \<open>0, \<dots>, L - 1\<close> and nothing else, so \<open>L\<close> nodes, and as
  many edges as the edge map has entries.
\<close>

theorem graph_size:
  assumes tr: "transform (graph_builder self) y = Inr em"
    and range: "\<forall>e \<in> fst ` set em. fst e < snd (shape y) \<and> snd e < snd (shape y) \<and> fst e \<noteq> snd e"
    and uniq: "distinct (map (\<lambda>x. undirected (fst x)) em)"
  shows "\<exists>g. graph_attr (fst (fit_predict lib self X y)) = Some g
           \<and> nodes g = [0..<snd (shape y)]
           \<and> number_of_nodes g = snd (shape y)
           \<and> number_of_edges g = length em"
proof -
  let ?g = "assemble_graph (snd (shape y)) em"
  have n: "nodes ?g = [0..<snd (shape y)]"
    using range by (intro nodes_assemble_graph) blast
  have e: "edges ?g = em" using uniq by (rule edges_assemble_graph)
  have a: "graph_attr (fst (fit_predict lib self X y)) = Some ?g"
    by (rule fit_predict_attrs(1)[OF tr])
  from a n e show ?thesis
    by (simp add: number_of_nodes_def number_of_edges_def)
qed

theorem graph_size_witness:
  "transform (graph_builder (stub_clusterer scenario_edge_map True ''louvain'')) scenario_y = Inr scenario_edge_map
   \<and> list_all (\<lambda>e. fst e < snd (shape scenario_y) \<and> snd e < snd (shape scenario_y) \<and> fst e \<noteq> snd e)
        (map fst scenario_edge_map)
   \<and> distinct (map (\<lambda>x. undirected (fst x)) scenario_edge_map)
   \<and> (\<exists>g. graph_attr (fst (fit_predict oracle_lib (stub_clusterer scenario_edge_map True ''louvain'') () scenario_y)) = Some g
           \<and> nodes g = [0..<snd (shape scenario_y)]
           \<and> number_of_nodes g = snd (shape scenario_y)
           \<and> number_of_edges g = length scenario_edge_map)"
proof -
  have h1: "transform (graph_builder (stub_clusterer scenario_edge_map True ''louvain'')) scenario_y = Inr scenario_edge_map"
    by (simp add: stub_clusterer_def stub_builder_def)
  have h2: "\<forall>e \<in> fst ` set scenario_edge_map. fst e < snd (shape scenario_y) \<and> snd e < snd (shape scenario_y) \<and> fst e \<noteq> snd e"
    by (simp add: scenario_edge_map_def scenario_y_def)
  then have h2': "list_all (\<lambda>e. fst e < snd (shape scenario_y) \<and> snd e < snd (shape scenario_y) \<and> fst e \<noteq> snd e)
        (map fst scenario_edge_map)"
    by (simp add: list_all_iff)
  have h3: "distinct (map (\<lambda>x. undirected (fst x)) scenario_edge_map)"
    by (simp add: scenario_edge_map_def undirected_def)
  from graph_size[OF h1 h2 h3, of oracle_lib "()"] h1 h2' h3 show ?thesis by blast
qed

lemma reversed_key_merges:
  "number_of_edges (assemble_graph 2 [((0, 1), a), ((1, 0), b)]) = 1"
  by code_simp

text \<open>
  C5 (for a label matrix with no columns and an empty edge map, \<^verbatim>\<open>fit_predict\<close>
  returns an empty membership list). The graph is empty, but no list is returned: the
  assignment of an empty graph is the empty dict and \<^verbatim>\<open>max\<close> of its values raises
  \<^verbatim>\<open>ValueError\<close>; with label propagation the iterator has no \<^verbatim>\<open>values\<close>.
\<close>

theorem no_labels_fails:
  "graph_attr (fst (fit_predict singleton_lib (stub_clusterer [] True ''louvain'') () no_labels_y))
     = Some (Graph :: real graph)
   \<and> snd (fit_predict singleton_lib (stub_clusterer ([] :: real edge_map) True ''louvain'') () no_labels_y)
     = Inl ValueError
   \<and> snd (fit_predict singleton_lib (stub_clusterer ([] :: real edge_map) True ''label_propagation'') () no_labels_y)
     = Inl AttributeError"
  by code_simp

lemma single_label_louvain:
  "snd (fit_predict singleton_lib (stub_clusterer ([] :: real edge_map) True ''louvain'') () one_label_y)
     = Inr [[0]]"
  by code_simp

text \<open>
  C6. When the assignment returned by community detection has no entry for some label
  index below \<open>num_labels\<close>, the conversion fails: the list comprehension raises
  \<^verbatim>\<open>KeyError\<close> (the missing-assignment error) for the smallest label index that
  has no entry, before anything else is computed.
\<close>

theorem missing_label_raises:
  assumes "i < L" and "map_of d i = None"
  shows "\<exists>j\<le>i. map_of d j = None \<and> (\<forall>k<j. map_of d k \<noteq> None)
           \<and> to_membership_list (AssignmentDict d) L = Inl (KeyError j)"
proof -
  define j where "j = (LEAST j. map_of d j = None)"
  have jn: "map_of d j = None" unfolding j_def using assms(2) by (rule LeastI)
  have ji: "j \<le> i" unfolding j_def using assms(2) by (rule Least_le)
  have jk: "\<forall>k<j. map_of d k \<noteq> None" unfolding j_def using not_less_Least by blast
  have split: "[0..<L] = [0..<j] @ j # [Suc j..<L]"
    using ji assms(1) by (metis le_less_trans upt_conv_Cons upt_add_eq_append le0 le_add_diff_inverse less_imp_le)
  have "comprehension (getitem (AssignmentDict d)) ([0..<j] @ j # [Suc j..<L]) = Inl (KeyError j)"
  proof (rule comprehension_first_error[where g = "\<lambda>k. the (map_of d k)"])
    fix k assume "k \<in> set [0..<j]"
    then obtain c where "map_of d k = Some c" using jk by auto
    then show "getitem (AssignmentDict d) k = Inr (the (map_of d k))" by simp
  next
    show "getitem (AssignmentDict d) j = Inl (KeyError j)" using jn by simp
  qed
  then have "to_membership_list (AssignmentDict d) L = Inl (KeyError j)"
    by (simp add: to_membership_list_def split[symmetric])
  with jn ji jk show ?thesis by blast
qed

theorem missing_label_raises_witness:
  "(1::nat) < 3 \<and> map_of [(0, 0), (2, 1)] (1::nat) = (None :: nat option)
   \<and> (\<exists>j\<le>1. map_of [(0, 0), (2, 1)] j = (None :: nat option) \<and> (\<forall>k<j. map_of [(0::nat, 0::nat), (2, 1)] k \<noteq> None)
           \<and> to_membership_list (AssignmentDict [(0, 0), (2, 1)]) 3 = Inl (KeyError j))"
proof -
  have h1: "(1::nat) < 3" by simp
  have h2: "map_of [(0, 0), (2, 1)] (1::nat) = (None :: nat option)" by simp
  from missing_label_raises[OF h1 h2] h1 h2 show ?thesis by blast
qed

lemma missing_label_example:
  "to_membership_list (AssignmentDict [(0, 0), (2, 1)]) 3 = Inl (KeyError 1)"
  by code_simp

text \<open>
  C7 (as the spec words it: with an unweighted builder every edge gets one uniform neutral
  weight, and no per-edge \<^verbatim>\<open>None\<close> reaches community detection). With an
  unweighted builder whose edge map holds \<^verbatim>\<open>None\<close> markers, each edge of the graph
  carries \<^verbatim>\<open>None\<close>; with one whose edge map holds different numbers, the edges carry
  those different numbers.
\<close>

theorem unweighted_carries_marker:
  "graph_attr (fst (fit_predict oracle_lib (stub_clusterer marker_edge_map False ''louvain'') () scenario_y))
     = Some \<lparr>nodes = [0, 1, 2, 3], edges = [((0, 1), None), ((1, 2), None)]\<rparr>
   \<and> graph_attr (fst (fit_predict oracle_lib (stub_clusterer uneven_edge_map False ''louvain'') () scenario_y))
     = Some \<lparr>nodes = [0, 1, 2, 3], edges = [((0, 1), Some 2), ((1, 2), Some 1)]\<rparr>"
  by code_simp

text \<open>
  C7, as the code has it: whether the builder is weighted or not, every edge of the
  assembled graph carries the value its key has in the edge map (each unordered pair
  occurring once); \<^verbatim>\<open>is_weighted\<close> only decides \<^verbatim>\<open>weights_\<close>, the list of the
  edge map's values for a weighted builder and \<^verbatim>\<open>None\<close> otherwise.
\<close>

theorem edges_carry_edge_map_values:
  assumes tr: "transform (graph_builder self) y = Inr em"
    and uniq: "distinct (map (\<lambda>x. undirected (fst x)) em)"
  shows "\<exists>g. graph_attr (fst (fit_predict lib self X y)) = Some g
           \<and> edges g = em
           \<and> weights_attr (fst (fit_predict lib self X y)) =
               Some (if is_weighted (graph_builder self) then Some (map snd em) else None)"
proof -
  have a: "graph_attr (fst (fit_predict lib self X y)) = Some (assemble_graph (snd (shape y)) em)"
    by (rule fit_predict_attrs(1)[OF tr])
  have w: "weights_attr (fst (fit_predict lib self X y)) =
             Some (if is_weighted (graph_builder self) then Some (map snd em) else None)"
    by (rule fit_predict_attrs(2)[OF tr])
  have e: "edges (assemble_graph (snd (shape y)) em) = em"
    using uniq by (rule edges_assemble_graph)
  from a w e show ?thesis by blast
qed

theorem edges_carry_edge_map_values_witness:
  "transform (graph_builder (stub_clusterer marker_edge_map False ''louvain'')) scenario_y = Inr marker_edge_map
   \<and> distinct (map (\<lambda>x. undirected (fst x)) marker_edge_map)
   \<and> (\<exists>g. graph_attr (fst (fit_predict oracle_lib (stub_clusterer marker_edge_map False ''louvain'') () scenario_y)) = Some g
           \<and> edges g = marker_edge_map
           \<and> weights_attr (fst (fit_predict oracle_lib (stub_clusterer marker_edge_map False ''louvain'') () scenario_y)) =
               Some (if is_weighted (graph_builder (stub_clusterer marker_edge_map False ''louvain''))
                     then Some (map snd marker_edge_map) else None))"
proof -
  have h1: "transform (graph_builder (stub_clusterer marker_edge_map False ''louvain'')) scenario_y = Inr marker_edge_map"
    by (simp add: stub_clusterer_def stub_builder_def)
  have h2: "distinct (map (\<lambda>x. undirected (fst x)) marker_edge_map)"
    by (simp add: marker_edge_map_def undirected_def)
  from edges_carry_edge_map_values[OF h1 h2, of oracle_lib "()"] h1 h2 show ?thesis by blast
qed

text \<open>
  C8. Round trip: for an assignment with an entry for every label index below \<open>L\<close>,
  mapping each label to the position of the community that contains it in the returned
  membership list gives back the label's community id; hence two labels share a community
  in the membership list exactly when the assignment gives them the same id.
\<close>

theorem round_trip:
  assumes cover: "\<forall>i<L. map_of d i \<noteq> None" and ne: "d \<noteq> []"
  shows "\<exists>out. to_membership_list (AssignmentDict d) L = Inr out
           \<and> (\<forall>i<L. rederive_assignment out i = map_of d i)
           \<and> (\<forall>i<L. \<forall>j<L. (rederive_assignment out i = rederive_assignment out j)
                            = (map_of d i = map_of d j))"
proof -
  let ?k = "1 + Max (ran (map_of d))"
  let ?mv = "map (\<lambda>i. the (map_of d i)) [0..<L]"
  let ?out = "membership_to_list_of_communities ?mv ?k"
  have r: "to_membership_list (AssignmentDict d) L = Inr ?out"
    by (rule to_membership_list_dict[OF cover ne])
  have re: "rederive_assignment ?out i = map_of d i" if i: "i < L" for i
  proof -
    from cover i obtain c where c: "map_of d i = Some c" by blast
    have ck: "c < ?k" using assignment_below_max[of d i] c by simp
    have "rederive_assignment ?out i = Some c"
    proof (rule rederive_position)
      show "c < length ?out" using ck by (simp add: length_communities)
      show "i \<in> set (?out ! c)" using ck i c by (simp add: set_nth_communities)
      show "\<forall>c'<c. i \<notin> set (?out ! c')"
        using ck i c by (auto simp: set_nth_communities)
    qed
    with c show ?thesis by simp
  qed
  from r re show ?thesis by simp
qed

theorem round_trip_witness:
  "list_all (\<lambda>i. map_of oracle_partition i \<noteq> None) [0..<4] \<and> oracle_partition \<noteq> []
   \<and> (\<exists>out. to_membership_list (AssignmentDict oracle_partition) 4 = Inr out
           \<and> (\<forall>i<4. rederive_assignment out i = map_of oracle_partition i)
           \<and> (\<forall>i<4. \<forall>j<4. (rederive_assignment out i = rederive_assignment out j)
                            = (map_of oracle_partition i = map_of oracle_partition j)))"
proof -
  have h1: "\<forall>i<4. map_of oracle_partition i \<noteq> None"
    by (simp add: oracle_partition_def numeral_eq_Suc All_less_Suc)
  then have h1': "list_all (\<lambda>i. map_of oracle_partition i \<noteq> None) [0..<4]"
    by (simp add: list_all_iff)
  have h2: "oracle_partition \<noteq> []" by (simp add: oracle_partition_def)
  from round_trip[OF h1 h2] h1' h2 show ?thesis by blast
qed

text \<open>
  C9. The conversion depends on the assignment only as a mapping: two dicts with the same
  entries, whatever their iteration order, give the same outcome, and every community
  list of a returned membership list is strictly ascending.
\<close>

theorem conversion_deterministic:
  assumes "map_of d = map_of d'"
  shows "to_membership_list (AssignmentDict d) L = to_membership_list (AssignmentDict d') L
         \<and> (\<forall>out. to_membership_list (AssignmentDict d) L = Inr out
                 \<longrightarrow> (\<forall>c \<in> set out. sorted_wrt (<) c))"
proof -
  have g: "getitem (AssignmentDict d) = getitem (AssignmentDict d')"
    using assms by (intro ext) simp
  have "set (dict_values d) = set (dict_values d')"
    using assms by (simp add: set_dict_values)
  then have m: "py_max (dict_values d) = py_max (dict_values d')"
    by (rule py_max_set_cong)
  have eq: "to_membership_list (AssignmentDict d) L = to_membership_list (AssignmentDict d') L"
    by (simp add: to_membership_list_def g m split: sum.splits)
  have "\<forall>c \<in> set out. sorted_wrt (<) c" if "to_membership_list (AssignmentDict d) L = Inr out" for out
    using that sorted_communities
    by (auto simp: to_membership_list_def split: sum.splits)
  with eq show ?thesis by blast
qed

theorem conversion_deterministic_witness:
  "map_of [(0::nat, 1::nat), (1, 0), (2, 1)] = map_of [(2, 1), (1, 0), (0, 1), (1, 5)]
   \<and> to_membership_list (AssignmentDict [(0, 1), (1, 0), (2, 1)]) 3
       = to_membership_list (AssignmentDict [(2, 1), (1, 0), (0, 1), (1, 5)]) 3
   \<and> (\<exists>out. to_membership_list (AssignmentDict [(0, 1), (1, 0), (2, 1)]) 3 = Inr out
           \<and> list_all (sorted_wrt (<)) out)"
proof -
  have h: "map_of [(0::nat, 1::nat), (1, 0), (2, 1)] = map_of [(2, 1), (1, 0), (0, 1), (1, 5)]"
    by (rule ext) simp
  have r: "to_membership_list (AssignmentDict [(0, 1), (1, 0), (2, 1)]) 3 = Inr [[1], [0, 2]]"
    by code_simp
  from conversion_deterministic[OF h, of 3] have
    e: "to_membership_list (AssignmentDict [(0, 1), (1, 0), (2, 1)]) 3
       = to_membership_list (AssignmentDict [(2, 1), (1, 0), (0, 1), (1, 5)]) 3"
    and s: "\<forall>c \<in> set [[1], [0, 2::nat]]. sorted_wrt (<) c"
    using r by blast+
  from s have "list_all (sorted_wrt (<)) [[1], [0, 2::nat]]" by (simp only: list_all_iff)
  with h e r show ?thesis by blast
qed

text \<open>
  C10. \<^verbatim>\<open>fit_predict\<close> never reads \<open>X\<close>: two calls that differ only in \<open>X\<close>, of
  whatever types, return the same value and leave the same \<^verbatim>\<open>graph_\<close> and
  \<^verbatim>\<open>weights_\<close>.
\<close>

theorem X_is_never_read:
  "fit_predict lib self (X :: 'a) y = fit_predict lib self (X' :: 'b) y"
  by (simp add: fit_predict_def)

end
